theory Spec2Isabelle
  imports Main "HOL-Library.Sublist"
begin

section \<open>The Calico Neutron agent: host boundary\<close>

text \<open>
  The agent of \<^verbatim>\<open>calico_neutron_agent.py\<close> acts on the host and on the Neutron plugin
  only through calls of libraries it imports: \<^verbatim>\<open>utils.execute\<close> (a spawned process),
  \<^verbatim>\<open>os.listdir\<close>, \<^verbatim>\<open>netaddr.valid_ipv6\<close>, the plugin RPC proxy and the security
  group mixin. Each such call is recorded as an \<open>event\<close>; the list of events so far is
  the state the model threads through the code. What the outside answers is a parameter
  (\<open>env\<close>): every answer may depend on the whole history of events, so the same command
  can succeed once and fail later.
\<close>

datatype exn = Exception string | SystemExit int

text \<open>
  \<open>Exception m\<close> is any instance of a subclass of Python's \<^verbatim>\<open>Exception\<close> (what
  \<^verbatim>\<open>except Exception\<close> catches), \<open>m\<close> its class name; \<open>SystemExit n\<close> is what
  \<^verbatim>\<open>sys.exit(n)\<close> raises, which \<^verbatim>\<open>except Exception\<close> lets through.
\<close>

record proc =
  returncode :: int
  stdout :: string
  stderr :: string

record fixed_ip =
  ip_address :: string
  subnet_id :: string

text \<open>
  The dictionary \<^verbatim>\<open>get_device_details\<close> returns. \<open>port_id = None\<close> is a dictionary
  without the key \<^verbatim>\<open>'port_id'\<close> (the plugin does not know the device);
  \<open>network_type = None\<close> is a missing key or the value \<^verbatim>\<open>None\<close>, which
  \<^verbatim>\<open>details.get('network_type')\<close> does not tell apart.
\<close>

record port_details =
  port_id :: "string option"
  admin_state_up :: bool
  network_id :: string
  network_type :: "string option"
  physical_network :: "string option"
  segmentation_id :: "int option"
  fixed_ips :: "fixed_ip list"
  mac_address :: string

datatype event =
    Listdir
  | Execute "string list" bool
  | Get_device_details string
  | Update_device_up string
  | Update_device_down string
  | Prepare_devices_filter "string set"
  | Remove_devices_filter "string set"
  | Add_interface string
  | Remove_interface string

text \<open>
  \<open>Execute argv root\<close> is one call of \<^verbatim>\<open>utils.execute\<close> (\<open>root\<close>: a
  \<^verbatim>\<open>root_helper\<close> was passed); \<open>Add_interface p\<close> and \<open>Remove_interface p\<close> mark
  the entry into \<^verbatim>\<open>CalicoManager.add_interface\<close> and \<^verbatim>\<open>remove_interface\<close> for
  port \<open>p\<close> (the \<^verbatim>\<open>LOG.info\<close> line each starts with); the others are the calls of the
  same name.
\<close>

type_synonym trace = "event list"

record env =
  os_listdir :: "trace \<Rightarrow> string + string list"
  spawn :: "trace \<Rightarrow> string list \<Rightarrow> bool \<Rightarrow> proc"
  netaddr_valid_ipv6 :: "string \<Rightarrow> bool"
  rpc_get_device_details :: "trace \<Rightarrow> string \<Rightarrow> string + port_details"
  rpc_update_device_up :: "trace \<Rightarrow> string \<Rightarrow> string + unit"
  rpc_update_device_down :: "trace \<Rightarrow> string \<Rightarrow> string + bool"
  sg_prepare_devices_filter :: "trace \<Rightarrow> string set \<Rightarrow> string + unit"
  sg_remove_devices_filter :: "trace \<Rightarrow> string set \<Rightarrow> string + unit"
  set_order :: "string set \<Rightarrow> string list"

text \<open>
  An answer \<open>Inl m\<close> of the outside is a raised \<open>Exception m\<close>. The answer of
  \<open>rpc_update_device_down\<close> is the value under \<^verbatim>\<open>'exists'\<close> of the dictionary the
  plugin returns. \<open>set_order\<close> is the order in which Python iterates over a set of
  device names, which the language leaves open.
\<close>

type_synonym 'a action = "trace \<Rightarrow> (exn + 'a) \<times> trace"

definition returns :: "'a \<Rightarrow> 'a action" where
  "returns x tr = (Inr x, tr)"

definition raises :: "exn \<Rightarrow> 'a action" where
  "raises e tr = (Inl e, tr)"

definition andthen :: "'a action \<Rightarrow> ('a \<Rightarrow> 'b action) \<Rightarrow> 'b action" where
  "andthen f g tr = (case f tr of (Inl e, tr') \<Rightarrow> (Inl e, tr') | (Inr x, tr') \<Rightarrow> g x tr')"

definition external :: "(trace \<Rightarrow> string + 'a) \<Rightarrow> event \<Rightarrow> 'a action" where
  "external answer ev tr =
     (case answer tr of
        Inl m \<Rightarrow> (Inl (Exception m), tr @ [ev])
      | Inr x \<Rightarrow> (Inr x, tr @ [ev]))"

text \<open>
  \<^verbatim>\<open>try: body except Exception: handler\<close>: the handler runs on an \<open>Exception\<close>,
  a \<open>SystemExit\<close> passes.
\<close>

definition try_except :: "'a action \<Rightarrow> (string \<Rightarrow> 'a action) \<Rightarrow> 'a action" where
  "try_except body handler tr =
     (case body tr of
        (Inl (Exception m), tr') \<Rightarrow> handler m tr'
      | (Inl (SystemExit n), tr') \<Rightarrow> (Inl (SystemExit n), tr')
      | (Inr x, tr') \<Rightarrow> (Inr x, tr'))"

text \<open>
  \<^verbatim>\<open>utils.execute(cmd, root_helper=None, check_exit_code=True, return_stderr=False)\<close>
  of \<^verbatim>\<open>neutron.agent.linux.utils\<close>: it runs the command and returns its output; on a
  non-zero exit code it raises \<^verbatim>\<open>RuntimeError\<close> unless \<^verbatim>\<open>check_exit_code=False\<close>
  was passed (as the source does at lines 157 and 194, 206). The model returns both
  streams; a caller that did not pass \<^verbatim>\<open>return_stderr=True\<close> reads the first.
\<close>

definition execute :: "env \<Rightarrow> string list \<Rightarrow> bool \<Rightarrow> bool \<Rightarrow> (string \<times> string) action" where
  "execute env cmd root_helper check_exit_code tr =
     (let p = spawn env tr cmd root_helper in
      if returncode p \<noteq> 0 \<and> check_exit_code
      then (Inl (Exception ''RuntimeError''), tr @ [Execute cmd root_helper])
      else (Inr (stdout p, stderr p), tr @ [Execute cmd root_helper]))"

text \<open>Python's \<^verbatim>\<open>needle in haystack\<close> on strings.\<close>

fun str_in :: "string \<Rightarrow> string \<Rightarrow> bool" where
  "str_in needle [] = (needle = [])"
| "str_in needle (c # cs) = (prefix needle (c # cs) \<or> str_in needle cs)"

section \<open>CalicoManager\<close>

definition TAP_INTERFACE_PREFIX :: string where
  "TAP_INTERFACE_PREFIX = ''tap''"

definition get_tap_device_name :: "string \<Rightarrow> string" where
  "get_tap_device_name interface_id = TAP_INTERFACE_PREFIX @ take 11 interface_id"

text \<open>
  \<^verbatim>\<open>add_static_route\<close> (lines 145-179): the loop over \<^verbatim>\<open>fixed_ips\<close>, with the
  accumulator \<^verbatim>\<open>result\<close>; \<open>result1\<close>, \<open>result2\<close> and \<open>result3\<close> are its values
  after lines 159 and 171 and before line 178. Only the route is added with
  \<^verbatim>\<open>check_exit_code=False\<close>.
\<close>

fun add_static_route_loop ::
  "env \<Rightarrow> string \<Rightarrow> string \<Rightarrow> fixed_ip list \<Rightarrow> bool \<Rightarrow> bool action" where
  "add_static_route_loop env tap_device_name mac [] result = returns result"
| "add_static_route_loop env tap_device_name mac (ip_data # rest) result =
     andthen (execute env [''ip'', ''route'', ''add'', ip_address ip_data,
                           ''dev'', tap_device_name, ''proto'', ''static''] True False)
       (\<lambda>(route_out, route_err).
     let result1 = (result \<and> (route_err = [] \<or> str_in ''File exists'' route_err)) in
     andthen
       (if netaddr_valid_ipv6 env (ip_address ip_data)
        then andthen (execute env [''ip'', ''-6'', ''neigh'', ''add'', ip_address ip_data,
                                   ''lladdr'', mac, ''dev'', tap_device_name] True True)
               (\<lambda>_. returns result1)
        else andthen (execute env [''neutron-enable-proxy-arp'', tap_device_name] True True)
               (\<lambda>(proxy_arp_out, _).
             let result2 = (result1 \<and> str_in ''Enabled proxy arp'' proxy_arp_out) in
             andthen (execute env [''arp'', ''-s'', ip_address ip_data, mac] True True)
               (\<lambda>_. returns result2)))
       (\<lambda>result3.
     andthen (execute env [''neutron-enable-local-routing'', tap_device_name] True True)
       (\<lambda>(local_routing_out, _).
     add_static_route_loop env tap_device_name mac rest
       (result3 \<and> str_in ''Enabled local routing'' local_routing_out))))"

definition add_static_route :: "env \<Rightarrow> string \<Rightarrow> fixed_ip list \<Rightarrow> string \<Rightarrow> bool action" where
  "add_static_route env tap_device_name ips mac =
     add_static_route_loop env tap_device_name mac ips True"

text \<open>
  \<^verbatim>\<open>remove_static_route\<close> (lines 181-212). The route and the ARP entry are deleted
  with \<^verbatim>\<open>check_exit_code=False\<close>; the two helpers are run with the default, and the
  second without a root helper (line 202). The warnings are log lines only.
\<close>

fun remove_static_route_loop :: "env \<Rightarrow> string \<Rightarrow> string \<Rightarrow> fixed_ip list \<Rightarrow> unit action" where
  "remove_static_route_loop env tap_device_name mac [] = returns ()"
| "remove_static_route_loop env tap_device_name mac (ip_data # rest) =
     andthen (execute env [''ip'', ''route'', ''del'', ip_address ip_data,
                           ''dev'', tap_device_name, ''proto'', ''static''] True False)
       (\<lambda>_.
     andthen (execute env [''neutron-disable-proxy-arp'', tap_device_name] True True)
       (\<lambda>_.
     andthen (execute env [''neutron-disable-local-routing'', tap_device_name] False True)
       (\<lambda>_.
     andthen (execute env [''arp'', ''-d'', ip_address ip_data, ''-i'', tap_device_name] True False)
       (\<lambda>_.
     remove_static_route_loop env tap_device_name mac rest))))"

definition remove_static_route :: "env \<Rightarrow> string \<Rightarrow> fixed_ip list \<Rightarrow> string \<Rightarrow> bool action" where
  "remove_static_route env tap_device_name ips mac =
     andthen (remove_static_route_loop env tap_device_name mac ips) (\<lambda>_. returns True)"

text \<open>\<^verbatim>\<open>add_interface\<close> and \<^verbatim>\<open>remove_interface\<close> (lines 214-238).\<close>

definition add_interface ::
  "env \<Rightarrow> string \<Rightarrow> string option \<Rightarrow> string option \<Rightarrow> int option \<Rightarrow> string \<Rightarrow> fixed_ip list
     \<Rightarrow> string \<Rightarrow> bool action" where
  "add_interface env net_id net_type phys_net seg_id port ips mac tr =
     add_static_route env (get_tap_device_name port) ips mac (tr @ [Add_interface port])"

definition remove_interface ::
  "env \<Rightarrow> string \<Rightarrow> string option \<Rightarrow> string option \<Rightarrow> int option \<Rightarrow> string \<Rightarrow> fixed_ip list
     \<Rightarrow> string \<Rightarrow> bool action" where
  "remove_interface env net_id net_type phys_net seg_id port ips mac tr =
     remove_static_route env (get_tap_device_name port) ips mac (tr @ [Remove_interface port])"

text \<open>
  \<^verbatim>\<open>get_tap_devices\<close> (lines 251-257) and \<^verbatim>\<open>update_devices\<close> (lines 240-249), which
  returns \<^verbatim>\<open>None\<close> when nothing changed and the dictionary of the delta otherwise.
\<close>

record device_info =
  current :: "string set"
  added :: "string set"
  removed :: "string set"

definition get_tap_devices :: "env \<Rightarrow> string set action" where
  "get_tap_devices env =
     andthen (external (os_listdir env) Listdir)
       (\<lambda>listing. returns
          (fold (\<lambda>device devs. if prefix TAP_INTERFACE_PREFIX device then insert device devs else devs)
             listing {}))"

definition update_devices :: "env \<Rightarrow> string set \<Rightarrow> device_info option action" where
  "update_devices env registered_devices =
     andthen (get_tap_devices env)
       (\<lambda>devs. if devs = registered_devices then returns None
               else returns (Some \<lparr>current = devs,
                                    added = devs - registered_devices,
                                    removed = registered_devices - devs\<rparr>))"

section \<open>CalicoNeutronAgentRPC\<close>

text \<open>Python's truth value of \<^verbatim>\<open>details.get('network_type')\<close>.\<close>

definition truthy :: "string option \<Rightarrow> bool" where
  "truthy v = (case v of None \<Rightarrow> False | Some s \<Rightarrow> s \<noteq> [])"

text \<open>
  \<^verbatim>\<open>treat_devices_added\<close> (lines 428-487). \<open>treat_device_added\<close> is the body of its
  loop for one device and returns the value of \<^verbatim>\<open>resync\<close> after it. Only the lookup of
  the details stands in a \<^verbatim>\<open>try\<close>; \<^verbatim>\<open>add_interface\<close> and the two status reports do
  not. The record \<open>port_details\<close> carries every key the loop reads once
  \<^verbatim>\<open>'port_id'\<close> is there.
\<close>

definition treat_device_added :: "env \<Rightarrow> string \<Rightarrow> bool \<Rightarrow> bool action" where
  "treat_device_added env device resync =
     andthen
       (try_except
          (andthen (external (\<lambda>tr. rpc_get_device_details env tr device) (Get_device_details device))
             (\<lambda>details. returns (Some details)))
          (\<lambda>e. returns None))
       (\<lambda>lookup. case lookup of
           None \<Rightarrow> returns True
         | Some details \<Rightarrow>
            (case port_id details of
               Some port \<Rightarrow>
                 if admin_state_up details then
                   if truthy (network_type details) then
                     andthen (add_interface env (network_id details) (network_type details)
                                (physical_network details) (segmentation_id details) port
                                (fixed_ips details) (mac_address details))
                       (\<lambda>ok.
                     andthen
                       (if ok
                        then andthen (external (\<lambda>tr. rpc_update_device_up env tr device)
                                        (Update_device_up device)) (\<lambda>resp. returns ())
                        else andthen (external (\<lambda>tr. rpc_update_device_down env tr device)
                                        (Update_device_down device)) (\<lambda>resp. returns ()))
                       (\<lambda>_. returns resync))
                   else raises (SystemExit 1)
                 else returns resync
             | None \<Rightarrow> returns resync))"

fun treat_devices_added_loop :: "env \<Rightarrow> string list \<Rightarrow> bool \<Rightarrow> bool action" where
  "treat_devices_added_loop env [] resync = returns resync"
| "treat_devices_added_loop env (device # rest) resync =
     andthen (treat_device_added env device resync) (treat_devices_added_loop env rest)"

definition treat_devices_added :: "env \<Rightarrow> string set \<Rightarrow> bool action" where
  "treat_devices_added env devs =
     andthen (external (\<lambda>tr. sg_prepare_devices_filter env tr devs) (Prepare_devices_filter devs))
       (\<lambda>_. treat_devices_added_loop env (set_order env devs) False)"

text \<open>
  \<^verbatim>\<open>treat_devices_removed\<close> (lines 489-509), with \<open>treat_device_removed\<close> the body
  of its loop: the security group filter is removed and the plugin is told that each
  device is down; \<^verbatim>\<open>CalicoManager\<close> is not called.
\<close>

definition treat_device_removed :: "env \<Rightarrow> string \<Rightarrow> bool \<Rightarrow> bool action" where
  "treat_device_removed env device resync =
     andthen
       (try_except
          (andthen (external (\<lambda>tr. rpc_update_device_down env tr device) (Update_device_down device))
             (\<lambda>ex. returns (Some ex)))
          (\<lambda>e. returns None))
       (\<lambda>details. case details of
           None \<Rightarrow> returns True
         | Some ex \<Rightarrow> returns resync)"

fun treat_devices_removed_loop :: "env \<Rightarrow> string list \<Rightarrow> bool \<Rightarrow> bool action" where
  "treat_devices_removed_loop env [] resync = returns resync"
| "treat_devices_removed_loop env (device # rest) resync =
     andthen (treat_device_removed env device resync) (treat_devices_removed_loop env rest)"

definition treat_devices_removed :: "env \<Rightarrow> string set \<Rightarrow> bool action" where
  "treat_devices_removed env devs =
     andthen (external (\<lambda>tr. sg_remove_devices_filter env tr devs) (Remove_devices_filter devs))
       (\<lambda>_. treat_devices_removed_loop env (set_order env devs) False)"

text \<open>
  \<^verbatim>\<open>process_network_devices\<close> (lines 417-426). The dictionary \<^verbatim>\<open>update_devices\<close>
  returns always has the keys \<^verbatim>\<open>'added'\<close> and \<^verbatim>\<open>'removed'\<close>, so both branches run.
\<close>

definition process_network_devices :: "env \<Rightarrow> device_info \<Rightarrow> bool action" where
  "process_network_devices env info =
     andthen (treat_devices_added env (added info))
       (\<lambda>resync_a.
     andthen (treat_devices_removed env (removed info))
       (\<lambda>resync_b. returns (resync_a \<or> resync_b)))"

text \<open>
  One iteration of \<^verbatim>\<open>daemon_loop\<close> (lines 517-549), without the sleep: the reset when
  \<^verbatim>\<open>sync\<close> is set (lines 519-522), the poll (lines 523-528) and the processing of the
  delta (lines 529-540). An empty dictionary and \<^verbatim>\<open>None\<close> are both \<open>None\<close> here:
  \<^verbatim>\<open>if device_info\<close> is false for both.
\<close>

record loop_state =
  sync :: bool
  devices :: "string set"

definition begin_tick :: "loop_state \<Rightarrow> loop_state" where
  "begin_tick st = (if sync st then st\<lparr>devices := {}, sync := False\<rparr> else st)"

definition poll_devices :: "env \<Rightarrow> loop_state \<Rightarrow> (loop_state \<times> device_info option) action" where
  "poll_devices env st =
     try_except
       (andthen (update_devices env (devices st)) (\<lambda>info. returns (st, info)))
       (\<lambda>e. returns (st\<lparr>sync := True\<rparr>, None))"

definition notify_plugin :: "env \<Rightarrow> loop_state \<Rightarrow> device_info option \<Rightarrow> loop_state action" where
  "notify_plugin env st info_opt =
     try_except
       (case info_opt of
          None \<Rightarrow> returns st
        | Some info \<Rightarrow>
            andthen (process_network_devices env info)
              (\<lambda>resync. returns (st\<lparr>sync := resync, devices := current info\<rparr>)))
       (\<lambda>e. returns (st\<lparr>sync := True\<rparr>))"

definition tick :: "env \<Rightarrow> loop_state \<Rightarrow> loop_state action" where
  "tick env st =
     andthen (poll_devices env (begin_tick st)) (\<lambda>(st', info_opt). notify_plugin env st' info_opt)"

text \<open>
  \<^verbatim>\<open>daemon_loop\<close> never returns; \<open>daemon_loop env n\<close> is its first \<open>n\<close> iterations from
  the initial state (\<^verbatim>\<open>sync = True\<close>, no device known).
\<close>

fun iterate_ticks :: "env \<Rightarrow> nat \<Rightarrow> loop_state \<Rightarrow> loop_state action" where
  "iterate_ticks env 0 st = returns st"
| "iterate_ticks env (Suc n) st = andthen (tick env st) (iterate_ticks env n)"

definition daemon_loop :: "env \<Rightarrow> nat \<Rightarrow> loop_state action" where
  "daemon_loop env n = iterate_ticks env n \<lparr>sync = True, devices = {}\<rparr>"

section \<open>What the host must answer: the commands of one binding\<close>

text \<open>
  The commands \<^verbatim>\<open>add_static_route\<close> runs for one binding, and two predicates over
  the answers of the host from history \<open>tr\<close> on: \<open>binding_exits\<close>, that every command
  run with the exit code checked exits with code 0, and \<open>binding_checks\<close>, the three
  conditions the source folds into \<^verbatim>\<open>result\<close>.
\<close>

definition route_add_cmd :: "string \<Rightarrow> string \<Rightarrow> string list" where
  "route_add_cmd tap ip = [''ip'', ''route'', ''add'', ip, ''dev'', tap, ''proto'', ''static'']"

definition neigh_add_cmd :: "string \<Rightarrow> string \<Rightarrow> string \<Rightarrow> string list" where
  "neigh_add_cmd tap mac ip = [''ip'', ''-6'', ''neigh'', ''add'', ip, ''lladdr'', mac, ''dev'', tap]"

definition proxy_arp_cmd :: "string \<Rightarrow> string list" where
  "proxy_arp_cmd tap = [''neutron-enable-proxy-arp'', tap]"

definition arp_add_cmd :: "string \<Rightarrow> string \<Rightarrow> string list" where
  "arp_add_cmd mac ip = [''arp'', ''-s'', ip, mac]"

definition local_routing_cmd :: "string \<Rightarrow> string list" where
  "local_routing_cmd tap = [''neutron-enable-local-routing'', tap]"

definition binding_commands :: "env \<Rightarrow> string \<Rightarrow> string \<Rightarrow> string \<Rightarrow> string list list" where
  "binding_commands env tap mac ip =
     route_add_cmd tap ip #
     (if netaddr_valid_ipv6 env ip then [neigh_add_cmd tap mac ip]
      else [proxy_arp_cmd tap, arp_add_cmd mac ip]) @
     [local_routing_cmd tap]"

definition route_add_ok :: "proc \<Rightarrow> bool" where
  "route_add_ok p = (stderr p = [] \<or> str_in ''File exists'' (stderr p))"

definition binding_exits :: "env \<Rightarrow> string \<Rightarrow> string \<Rightarrow> trace \<Rightarrow> string \<Rightarrow> bool" where
  "binding_exits env tap mac tr ip =
     (let tr1 = tr @ [Execute (route_add_cmd tap ip) True] in
      if netaddr_valid_ipv6 env ip then
        returncode (spawn env tr1 (neigh_add_cmd tap mac ip) True) = 0 \<and>
        returncode (spawn env (tr1 @ [Execute (neigh_add_cmd tap mac ip) True])
                      (local_routing_cmd tap) True) = 0
      else
        returncode (spawn env tr1 (proxy_arp_cmd tap) True) = 0 \<and>
        returncode (spawn env (tr1 @ [Execute (proxy_arp_cmd tap) True])
                      (arp_add_cmd mac ip) True) = 0 \<and>
        returncode (spawn env (tr1 @ [Execute (proxy_arp_cmd tap) True,
                                      Execute (arp_add_cmd mac ip) True])
                      (local_routing_cmd tap) True) = 0)"

definition binding_checks :: "env \<Rightarrow> string \<Rightarrow> string \<Rightarrow> trace \<Rightarrow> string \<Rightarrow> bool" where
  "binding_checks env tap mac tr ip =
     (let tr1 = tr @ [Execute (route_add_cmd tap ip) True] in
      route_add_ok (spawn env tr (route_add_cmd tap ip) True) \<and>
      (if netaddr_valid_ipv6 env ip then
         str_in ''Enabled local routing''
           (stdout (spawn env (tr1 @ [Execute (neigh_add_cmd tap mac ip) True])
                      (local_routing_cmd tap) True))
       else
         str_in ''Enabled proxy arp'' (stdout (spawn env tr1 (proxy_arp_cmd tap) True)) \<and>
         str_in ''Enabled local routing''
           (stdout (spawn env (tr1 @ [Execute (proxy_arp_cmd tap) True,
                                      Execute (arp_add_cmd mac ip) True])
                      (local_routing_cmd tap) True))))"

text \<open>The same for a list of bindings, each from the history the earlier ones leave.\<close>

fun bindings_exit :: "env \<Rightarrow> string \<Rightarrow> string \<Rightarrow> trace \<Rightarrow> string list \<Rightarrow> bool" where
  "bindings_exit env tap mac tr [] = True"
| "bindings_exit env tap mac tr (ip # ips) =
     (binding_exits env tap mac tr ip \<and>
      bindings_exit env tap mac (tr @ map (\<lambda>c. Execute c True) (binding_commands env tap mac ip)) ips)"

fun bindings_check :: "env \<Rightarrow> string \<Rightarrow> string \<Rightarrow> trace \<Rightarrow> string list \<Rightarrow> bool" where
  "bindings_check env tap mac tr [] = True"
| "bindings_check env tap mac tr (ip # ips) =
     (binding_checks env tap mac tr ip \<and>
      bindings_check env tap mac (tr @ map (\<lambda>c. Execute c True) (binding_commands env tap mac ip)) ips)"

text \<open>
  The four commands \<^verbatim>\<open>remove_static_route\<close> runs for one binding, and the condition
  that the two helpers it runs with the exit code checked exit with code 0.
\<close>

definition remove_commands :: "string \<Rightarrow> string \<Rightarrow> event list" where
  "remove_commands tap ip =
     [Execute [''ip'', ''route'', ''del'', ip, ''dev'', tap, ''proto'', ''static''] True,
      Execute [''neutron-disable-proxy-arp'', tap] True,
      Execute [''neutron-disable-local-routing'', tap] False,
      Execute [''arp'', ''-d'', ip, ''-i'', tap] True]"

definition disable_helpers_exit_zero :: "env \<Rightarrow> string \<Rightarrow> bool" where
  "disable_helpers_exit_zero env tap =
     (\<forall>tr. returncode (spawn env tr [''neutron-disable-proxy-arp'', tap] True) = 0 \<and>
           returncode (spawn env tr [''neutron-disable-local-routing'', tap] False) = 0)"

text \<open>Events of \<^verbatim>\<open>CalicoManager\<close>: a call of the configurator or a command it runs.\<close>

fun configurator_event :: "event \<Rightarrow> bool" where
  "configurator_event (Execute cmd root) = True"
| "configurator_event (Add_interface port) = True"
| "configurator_event (Remove_interface port) = True"
| "configurator_event ev = False"

section \<open>Concrete hosts and plugins\<close>

text \<open>
  A host on which every command succeeds and the enabling helpers print their line, and
  a plugin that knows every device (one IPv4 binding, administratively up) and accepts
  every report. Sets of the four device names below are iterated in the order listed.
\<close>

definition ideal_host :: "string list \<Rightarrow> proc" where
  "ideal_host cmd =
     (if take 1 cmd = [''neutron-enable-proxy-arp'']
      then \<lparr>returncode = 0, stdout = ''Enabled proxy arp on tap'', stderr = []\<rparr>
      else if take 1 cmd = [''neutron-enable-local-routing'']
      then \<lparr>returncode = 0, stdout = ''Enabled local routing on tap'', stderr = []\<rparr>
      else \<lparr>returncode = 0, stdout = [], stderr = []\<rparr>)"

definition ideal_details :: "string \<Rightarrow> port_details" where
  "ideal_details device =
     \<lparr>port_id = Some (drop 3 device), admin_state_up = True, network_id = ''net1'',
      network_type = Some ''flat'', physical_network = None, segmentation_id = None,
      fixed_ips = [\<lparr>ip_address = ''10.0.0.2'', subnet_id = ''sub4''\<rparr>],
      mac_address = ''fa:16:3e:00:00:01''\<rparr>"

definition ideal_env :: "string list \<Rightarrow> env" where
  "ideal_env listing =
     \<lparr>os_listdir = (\<lambda>tr. Inr listing),
      spawn = (\<lambda>tr cmd root. ideal_host cmd),
      netaddr_valid_ipv6 = (\<lambda>ip. CHR '':'' \<in> set ip),
      rpc_get_device_details = (\<lambda>tr device. Inr (ideal_details device)),
      rpc_update_device_up = (\<lambda>tr device. Inr ()),
      rpc_update_device_down = (\<lambda>tr device. Inr True),
      sg_prepare_devices_filter = (\<lambda>tr devs. Inr ()),
      sg_remove_devices_filter = (\<lambda>tr devs. Inr ()),
      set_order = (\<lambda>devs. filter (\<lambda>d. d \<in> devs) [''tapA'', ''tapB'', ''tapC'', ''tapX''])\<rparr>"

text \<open>
  A host on which the IPv6 neighbour entry is already there (\<^verbatim>\<open>ip neigh add\<close> exits
  with code 2); one on which the interface is gone, so that the helper that writes its
  \<^verbatim>\<open>proxy_arp\<close> file fails; one on which there is no route and no ARP entry to delete;
  and one on which the route to \<^verbatim>\<open>10.0.0.3\<close> is refused.
\<close>

definition neigh_exists_host :: "string list \<Rightarrow> proc" where
  "neigh_exists_host cmd =
     (if take 4 cmd = [''ip'', ''-6'', ''neigh'', ''add'']
      then \<lparr>returncode = 2, stdout = [], stderr = ''RTNETLINK answers: File exists''\<rparr>
      else ideal_host cmd)"

definition iface_gone_host :: "string list \<Rightarrow> proc" where
  "iface_gone_host cmd =
     (if take 1 cmd = [''neutron-disable-proxy-arp'']
      then \<lparr>returncode = 1, stdout = ''Disabling proxy arp on tapX'', stderr = ''IOError''\<rparr>
      else ideal_host cmd)"

definition nothing_to_delete_host :: "string list \<Rightarrow> proc" where
  "nothing_to_delete_host cmd =
     (if take 1 cmd = [''ip''] \<or> take 1 cmd = [''arp'']
      then \<lparr>returncode = 2, stdout = [], stderr = ''No such process''\<rparr>
      else ideal_host cmd)"

definition one_route_refused_host :: "string list \<Rightarrow> proc" where
  "one_route_refused_host cmd =
     (if cmd = [''ip'', ''route'', ''add'', ''10.0.0.3'', ''dev'', ''tapA'', ''proto'', ''static'']
      then \<lparr>returncode = 2, stdout = [], stderr = ''RTNETLINK answers: Network is down''\<rparr>
      else ideal_host cmd)"

text \<open>
  Plugins: one whose lookup of \<^verbatim>\<open>tapB\<close> times out, one whose every lookup times out,
  and one that does not answer the report that a device is up.
\<close>

definition timeout_env :: env where
  "timeout_env =
     (ideal_env [''tapA'', ''tapB'', ''tapC''])
       \<lparr>rpc_get_device_details :=
          (\<lambda>tr device. if device = ''tapB'' then Inl ''Timeout'' else Inr (ideal_details device))\<rparr>"


definition report_up_fails_env :: env where
  "report_up_fails_env =
     (ideal_env [''tapA''])\<lparr>rpc_update_device_up := (\<lambda>tr device. Inl ''Timeout'')\<rparr>"

text \<open>
  The events of one added device that the ideal plugin knows, from the lookup to the
  report that it is up, and the delta of a tick in which \<^verbatim>\<open>tapX\<close> went and
  \<^verbatim>\<open>tapA\<close> came.
\<close>

definition configured :: "string \<Rightarrow> string \<Rightarrow> trace" where
  "configured device port =
     [Get_device_details device, Add_interface port,
      Execute [''ip'', ''route'', ''add'', ''10.0.0.2'', ''dev'', device, ''proto'', ''static''] True,
      Execute [''neutron-enable-proxy-arp'', device] True,
      Execute [''arp'', ''-s'', ''10.0.0.2'', ''fa:16:3e:00:00:01''] True,
      Execute [''neutron-enable-local-routing'', device] True,
      Update_device_up device]"

definition churn_info :: device_info where
  "churn_info = \<lparr>current = {''tapA''}, added = {''tapA''}, removed = {''tapX''}\<rparr>"

section \<open>Properties of the configurator\<close>

lemma andthen_returns [simp]: "andthen (returns x) g = g x"
  by (rule ext) (simp add: andthen_def returns_def)

lemma andthen_raises [simp]: "andthen (raises e) g = raises e"
  by (rule ext) (simp add: andthen_def raises_def)

lemma andthen_assoc: "andthen (andthen f g) h = andthen f (\<lambda>x. andthen (g x) h)"
  by (rule ext) (simp add: andthen_def split: prod.splits sum.splits)

lemma execute_unchecked:
  "execute env cmd root False tr =
     (Inr (stdout (spawn env tr cmd root), stderr (spawn env tr cmd root)), tr @ [Execute cmd root])"
  by (simp add: execute_def Let_def)

lemma execute_checked:
  "execute env cmd root True tr =
     (if returncode (spawn env tr cmd root) = 0
      then (Inr (stdout (spawn env tr cmd root), stderr (spawn env tr cmd root)), tr @ [Execute cmd root])
      else (Inl (Exception ''RuntimeError''), tr @ [Execute cmd root]))"
  by (simp add: execute_def Let_def)


text \<open>
  C10: on an empty list of bindings \<^verbatim>\<open>add_static_route\<close> and
  \<^verbatim>\<open>remove_static_route\<close> run no command (the trace is unchanged) and return
  \<^verbatim>\<open>True\<close>.
\<close>

theorem no_bindings_no_commands:
  "add_static_route env tap [] mac tr = (Inr True, tr) \<and>
   remove_static_route env tap [] mac tr = (Inr True, tr)"
  by (simp add: add_static_route_def remove_static_route_def returns_def)

lemma add_loop_step_ran:
  assumes "binding_exits env tap mac tr (ip_address b)"
  shows "add_static_route_loop env tap mac (b # rest) result tr =
         add_static_route_loop env tap mac rest
           (result \<and> binding_checks env tap mac tr (ip_address b))
           (tr @ map (\<lambda>c. Execute c True) (binding_commands env tap mac (ip_address b)))"
  using assms
  by (auto simp: binding_exits_def binding_checks_def binding_commands_def andthen_def
      execute_checked execute_unchecked returns_def route_add_ok_def Let_def
      route_add_cmd_def neigh_add_cmd_def proxy_arp_cmd_def arp_add_cmd_def local_routing_cmd_def)

lemma add_loop_step_raised:
  assumes "\<not> binding_exits env tap mac tr (ip_address b)"
  shows "fst (add_static_route_loop env tap mac (b # rest) result tr) = Inl (Exception ''RuntimeError'')"
  using assms
  by (auto simp: binding_exits_def binding_commands_def andthen_def
      execute_checked execute_unchecked returns_def Let_def
      route_add_cmd_def neigh_add_cmd_def proxy_arp_cmd_def arp_add_cmd_def local_routing_cmd_def)

lemma add_loop_result:
  "fst (add_static_route_loop env tap mac ips result tr) =
     (if bindings_exit env tap mac tr (map ip_address ips)
      then Inr (result \<and> bindings_check env tap mac tr (map ip_address ips))
      else Inl (Exception ''RuntimeError''))"
proof (induction ips arbitrary: result tr)
  case Nil
  then show ?case by (simp add: returns_def)
next
  case (Cons b rest)
  show ?case
  proof (cases "binding_exits env tap mac tr (ip_address b)")
    case True
    have "add_static_route_loop env tap mac (b # rest) result tr =
          add_static_route_loop env tap mac rest
            (result \<and> binding_checks env tap mac tr (ip_address b))
            (tr @ map (\<lambda>c. Execute c True) (binding_commands env tap mac (ip_address b)))"
      by (rule add_loop_step_ran [OF True])
    with True Cons.IH show ?thesis by auto
  next
    case False
    have "fst (add_static_route_loop env tap mac (b # rest) result tr) = Inl (Exception ''RuntimeError'')"
      by (rule add_loop_step_raised [OF False])
    with False show ?thesis by simp
  qed
qed


lemma remove_loop_mac:
  "remove_static_route_loop env tap mac ips = remove_static_route_loop env tap mac' ips"
  by (induction ips) simp_all

lemma remove_loop_permissive:
  assumes "disable_helpers_exit_zero env tap"
  shows "remove_static_route_loop env tap mac ips tr =
         (Inr (), tr @ concat (map (\<lambda>b. remove_commands tap (ip_address b)) ips))"
proof (induction ips arbitrary: tr)
  case Nil
  show ?case by (simp add: returns_def)
next
  case (Cons b rest)
  from assms show ?case
    by (simp add: Cons.IH disable_helpers_exit_zero_def andthen_def execute_checked
        execute_unchecked remove_commands_def)
qed


lemmas host_simps = ideal_env_def ideal_host_def route_add_cmd_def neigh_add_cmd_def
  proxy_arp_cmd_def arp_add_cmd_def local_routing_cmd_def binding_commands_def
  binding_exits_def binding_checks_def route_add_ok_def

text \<open>
  C3, as the code has it: \<^verbatim>\<open>add_static_route\<close> returns a boolean exactly when, for
  every binding, every command it runs with the exit code checked (the IPv6 neighbour
  add, the proxy-ARP helper, the static ARP add, the local-routing helper) exits with
  code 0, and raises \<^verbatim>\<open>RuntimeError\<close> otherwise. The boolean is true if and only if,
  for every binding, the route add had an empty stderr or one containing
  \<^verbatim>\<open>File exists\<close>, the proxy-ARP helper (IPv4) printed \<^verbatim>\<open>Enabled proxy arp\<close> and the
  local-routing helper printed \<^verbatim>\<open>Enabled local routing\<close>: one failed check on one
  binding makes it false.
\<close>

theorem add_static_route_outcome:
  "fst (add_static_route env tap ips mac tr) =
     (if bindings_exit env tap mac tr (map ip_address ips)
      then Inr (bindings_check env tap mac tr (map ip_address ips))
      else Inl (Exception ''RuntimeError''))"
  by (simp add: add_static_route_def add_loop_result)

text \<open>
  At two IPv4 bindings of which the second route is refused, every command exits as it
  should and the outcome is \<^verbatim>\<open>False\<close>.
\<close>

theorem add_static_route_outcome_witness:
  "fst (add_static_route ((ideal_env [])\<lparr>spawn := (\<lambda>tr cmd root. one_route_refused_host cmd)\<rparr>) ''tapA''
         [\<lparr>ip_address = ''10.0.0.2'', subnet_id = ''sub4''\<rparr>,
          \<lparr>ip_address = ''10.0.0.3'', subnet_id = ''sub4''\<rparr>] ''fa:16:3e:00:00:01'' [])
   = Inr False"
  using add_static_route_outcome [of "(ideal_env [])\<lparr>spawn := (\<lambda>tr cmd root. one_route_refused_host cmd)\<rparr>"
      "''tapA''" "[\<lparr>ip_address = ''10.0.0.2'', subnet_id = ''sub4''\<rparr>,
          \<lparr>ip_address = ''10.0.0.3'', subnet_id = ''sub4''\<rparr>]" "''fa:16:3e:00:00:01''" "[]"]
  by (simp add: host_simps one_route_refused_host_def)

text \<open>
  C3 as stated fails: when the neighbour add of an IPv6 binding fails, the outcome is not
  \<^verbatim>\<open>False\<close>; \<^verbatim>\<open>add_static_route\<close> raises.
\<close>

theorem add_static_route_neigh_failure_raises:
  "fst (add_static_route ((ideal_env [])\<lparr>spawn := (\<lambda>tr cmd root. neigh_exists_host cmd)\<rparr>) ''tapA''
         [\<lparr>ip_address = ''fd00::2'', subnet_id = ''sub6''\<rparr>] ''fa:16:3e:00:00:01'' [])
     = Inl (Exception ''RuntimeError'') \<and>
   fst (add_static_route ((ideal_env [])\<lparr>spawn := (\<lambda>tr cmd root. neigh_exists_host cmd)\<rparr>) ''tapA''
         [\<lparr>ip_address = ''fd00::2'', subnet_id = ''sub6''\<rparr>] ''fa:16:3e:00:00:01'' [])
     \<noteq> Inr False"
  by (simp add: add_static_route_def ideal_env_def neigh_exists_host_def ideal_host_def
      andthen_def execute_checked execute_unchecked returns_def Let_def)

text \<open>
  C7, as the code has it: whenever the two disabling helpers exit with code 0,
  \<^verbatim>\<open>remove_static_route\<close> runs all four cleanup commands of every binding and returns
  \<^verbatim>\<open>True\<close>, whatever the deletion of the route and of the ARP entry answer.
\<close>

theorem remove_static_route_permissive:
  assumes "disable_helpers_exit_zero env tap"
  shows "remove_static_route env tap ips mac tr =
         (Inr True, tr @ concat (map (\<lambda>b. remove_commands tap (ip_address b)) ips))"
  by (simp add: remove_static_route_def andthen_def remove_loop_permissive [OF assms] returns_def)

text \<open>On a host with no route and no ARP entry to delete, both deletions fail and the
  removal still runs its four commands and returns \<^verbatim>\<open>True\<close>.\<close>

theorem remove_static_route_permissive_witness:
  "disable_helpers_exit_zero ((ideal_env [])\<lparr>spawn := (\<lambda>tr cmd root. nothing_to_delete_host cmd)\<rparr>) ''tapX'' \<and>
   remove_static_route ((ideal_env [])\<lparr>spawn := (\<lambda>tr cmd root. nothing_to_delete_host cmd)\<rparr>) ''tapX''
       [\<lparr>ip_address = ''10.0.0.2'', subnet_id = ''sub4''\<rparr>] ''fa:16:3e:00:00:01'' []
     = (Inr True,
        [Execute [''ip'', ''route'', ''del'', ''10.0.0.2'', ''dev'', ''tapX'', ''proto'', ''static''] True,
         Execute [''neutron-disable-proxy-arp'', ''tapX''] True,
         Execute [''neutron-disable-local-routing'', ''tapX''] False,
         Execute [''arp'', ''-d'', ''10.0.0.2'', ''-i'', ''tapX''] True])"
proof -
  have h: "disable_helpers_exit_zero
             ((ideal_env [])\<lparr>spawn := (\<lambda>tr cmd root. nothing_to_delete_host cmd)\<rparr>) ''tapX''"
    by (simp add: disable_helpers_exit_zero_def ideal_env_def nothing_to_delete_host_def ideal_host_def)
  show ?thesis
    using h remove_static_route_permissive [OF h, of "[\<lparr>ip_address = ''10.0.0.2'', subnet_id = ''sub4''\<rparr>]"
        "''fa:16:3e:00:00:01''" "[]"]
    by (simp add: remove_commands_def)
qed

text \<open>
  C7 as stated fails: when the proxy-ARP helper exits with a non-zero code,
  \<^verbatim>\<open>remove_static_route\<close> raises and the two remaining cleanup commands are not run.
\<close>

theorem remove_static_route_helper_failure_raises:
  "remove_static_route ((ideal_env [])\<lparr>spawn := (\<lambda>tr cmd root. iface_gone_host cmd)\<rparr>) ''tapX''
         [\<lparr>ip_address = ''10.0.0.2'', subnet_id = ''sub4''\<rparr>] ''fa:16:3e:00:00:01'' []
   = (Inl (Exception ''RuntimeError''),
      [Execute [''ip'', ''route'', ''del'', ''10.0.0.2'', ''dev'', ''tapX'', ''proto'', ''static''] True,
       Execute [''neutron-disable-proxy-arp'', ''tapX''] True])"
  by (simp add: remove_static_route_def ideal_env_def iface_gone_host_def ideal_host_def
      andthen_def execute_checked execute_unchecked returns_def)

text \<open>
  C9: the result of \<^verbatim>\<open>remove_static_route\<close> and the commands it runs are the same for
  any two MAC addresses.
\<close>

theorem remove_static_route_ignores_mac:
  "remove_static_route env tap ips mac tr = remove_static_route env tap ips mac' tr"
  by (simp add: remove_static_route_def remove_loop_mac [of env tap mac ips mac'])

section \<open>Properties of the agent loop\<close>

lemma attempt:
  "try_except (andthen (external answer ev) (\<lambda>x. returns (Some x))) (\<lambda>e. returns None) tr =
     (case answer tr of Inl m \<Rightarrow> (Inr None, tr @ [ev]) | Inr x \<Rightarrow> (Inr (Some x), tr @ [ev]))"
  by (simp add: try_except_def andthen_def external_def returns_def split: sum.splits)

lemma update_devices_cases:
  "update_devices env A tr =
     (case get_tap_devices env tr of
        (Inl e, tr') \<Rightarrow> (Inl e, tr')
      | (Inr devs, tr') \<Rightarrow>
          (Inr (if devs = A then None
                else Some \<lparr>current = devs, added = devs - A, removed = A - devs\<rparr>), tr'))"
  by (simp add: update_devices_def andthen_def returns_def split: prod.splits sum.splits)




lemma removed_loop_trace:
  "\<exists>r'. treat_devices_removed_loop env ds r tr = (Inr r', tr @ map Update_device_down ds)"
proof (induction ds arbitrary: r tr)
  case Nil
  show ?case by (simp add: returns_def)
next
  case (Cons d ds)
  obtain r1 where "treat_device_removed env d r tr = (Inr r1, tr @ [Update_device_down d])"
    by (cases "rpc_update_device_down env tr d")
       (simp_all add: treat_device_removed_def andthen_def attempt returns_def)
  with Cons.IH [of r1 "tr @ [Update_device_down d]"] show ?case
    by (simp add: andthen_def)
qed

lemma andthen_not_False:
  assumes "\<And>x tr'. fst (g x tr') \<noteq> Inr False"
  shows "fst (andthen f g tr) \<noteq> Inr False"
proof -
  obtain r tr1 where f: "f tr = (r, tr1)" by (cases "f tr")
  show ?thesis
  proof (cases r)
    case (Inl e)
    with f show ?thesis by (simp add: andthen_def)
  next
    case (Inr x)
    with f assms [of x tr1] show ?thesis by (simp add: andthen_def)
  qed
qed

lemma device_added_keeps_resync:
  "fst (treat_device_added env d True tr) \<noteq> Inr False"
  unfolding treat_device_added_def
  by (rule andthen_not_False)
     (auto simp: returns_def raises_def split: option.splits intro!: andthen_not_False)

lemma added_loop_append:
  "treat_devices_added_loop env (xs @ ys) r =
     andthen (treat_devices_added_loop env xs r) (treat_devices_added_loop env ys)"
proof (induction xs arbitrary: r)
  case Nil
  show ?case by simp
next
  case (Cons x xs)
  have "treat_devices_added_loop env (xs @ ys) =
        (\<lambda>r'. andthen (treat_devices_added_loop env xs r') (treat_devices_added_loop env ys))"
    by (rule ext) (rule Cons.IH)
  then show ?case by (simp add: andthen_assoc)
qed

lemma lookup_failed:
  "rpc_get_device_details env tr d = Inl m \<Longrightarrow>
   treat_device_added env d r tr = (Inr True, tr @ [Get_device_details d])"
  by (simp add: treat_device_added_def andthen_def attempt returns_def)

lemma added_loop_keeps_resync:
  "fst (treat_devices_added_loop env ds True tr) \<noteq> Inr False"
proof (induction ds arbitrary: tr)
  case Nil
  show ?case by (simp add: returns_def)
next
  case (Cons d ds)
  obtain x tr1 where s: "treat_device_added env d True tr = (x, tr1)"
    by (cases "treat_device_added env d True tr")
  show ?case
  proof (cases x)
    case (Inl e)
    with s show ?thesis by (simp add: andthen_def)
  next
    case (Inr r1)
    with s device_added_keeps_resync [of env d tr] have "r1" by simp
    with s Inr Cons.IH [of tr1] show ?thesis by (simp add: andthen_def)
  qed
qed

lemma tick_after_poll:
  assumes "poll_devices env (begin_tick st) tr = (Inr (st1, Some info), tr1)"
  shows "tick env st tr =
     (case process_network_devices env info tr1 of
        (Inr resync, tr2) \<Rightarrow> (Inr (st1\<lparr>sync := resync, devices := current info\<rparr>), tr2)
      | (Inl (Exception m), tr2) \<Rightarrow> (Inr (st1\<lparr>sync := True\<rparr>), tr2)
      | (Inl (SystemExit n), tr2) \<Rightarrow> (Inl (SystemExit n), tr2))"
proof -
  obtain x tr2 where p: "process_network_devices env info tr1 = (x, tr2)"
    by (cases "process_network_devices env info tr1")
  show ?thesis
  proof (cases x)
    case (Inr resync)
    with p assms show ?thesis
      by (simp add: tick_def notify_plugin_def andthen_def try_except_def returns_def)
  next
    case (Inl e)
    with p assms show ?thesis
      by (cases e) (simp_all add: tick_def notify_plugin_def andthen_def try_except_def returns_def)
  qed
qed

lemma process_cases:
  "process_network_devices env info tr =
     (case treat_devices_added env (added info) tr of
        (Inl e, tr_a) \<Rightarrow> (Inl e, tr_a)
      | (Inr resync_a, tr_a) \<Rightarrow>
          (case sg_remove_devices_filter env tr_a (removed info) of
             Inl m \<Rightarrow> (Inl (Exception m), tr_a @ [Remove_devices_filter (removed info)])
           | Inr u \<Rightarrow>
               (case treat_devices_removed_loop env (set_order env (removed info)) False
                       (tr_a @ [Remove_devices_filter (removed info)]) of
                  (Inl e, tr') \<Rightarrow> (Inl e, tr')
                | (Inr resync_b, tr') \<Rightarrow> (Inr (resync_a \<or> resync_b), tr'))))"
  by (simp add: process_network_devices_def treat_devices_removed_def andthen_def external_def
      returns_def split: prod.splits sum.splits)

lemma process_trace:
  "snd (process_network_devices env info tr) =
     snd (treat_devices_added env (added info) tr) @
     (case fst (treat_devices_added env (added info) tr) of
        Inl e \<Rightarrow> []
      | Inr resync_a \<Rightarrow>
          (case sg_remove_devices_filter env (snd (treat_devices_added env (added info) tr))
                  (removed info) of
             Inl m \<Rightarrow> [Remove_devices_filter (removed info)]
           | Inr u \<Rightarrow> Remove_devices_filter (removed info) #
                       map Update_device_down (set_order env (removed info))))"
proof -
  obtain x tr_a where a: "treat_devices_added env (added info) tr = (x, tr_a)"
    by (cases "treat_devices_added env (added info) tr")
  show ?thesis
  proof (cases x)
    case (Inl e)
    with a show ?thesis by (simp add: process_cases)
  next
    case (Inr resync_a)
    show ?thesis
    proof (cases "sg_remove_devices_filter env tr_a (removed info)")
      case (Inl m)
      with a Inr show ?thesis by (simp add: process_cases)
    next
      case ok: (Inr u)
      from removed_loop_trace [of env "set_order env (removed info)" False
          "tr_a @ [Remove_devices_filter (removed info)]"]
      obtain rb where "treat_devices_removed_loop env (set_order env (removed info)) False
                         (tr_a @ [Remove_devices_filter (removed info)]) =
                       (Inr rb, (tr_a @ [Remove_devices_filter (removed info)]) @
                                map Update_device_down (set_order env (removed info)))"
        by blast
      with a Inr ok show ?thesis by (simp add: process_cases)
    qed
  qed
qed

lemma tick_trace_after_poll:
  assumes "poll_devices env (begin_tick st) tr = (Inr (st1, Some info), tr1)"
  shows "snd (tick env st tr) = snd (process_network_devices env info tr1)"
proof -
  obtain x tr2 where p: "process_network_devices env info tr1 = (x, tr2)"
    by (cases "process_network_devices env info tr1")
  show ?thesis
  proof (cases x)
    case (Inr resync)
    with p show ?thesis by (simp add: tick_after_poll [OF assms])
  next
    case (Inl e)
    with p show ?thesis by (cases e) (simp_all add: tick_after_poll [OF assms])
  qed
qed

lemma down_reports_none:
  "d \<notin> set ds \<Longrightarrow> count_list (map Update_device_down ds) (Update_device_down d) = 0"
  by (induction ds) auto

lemma down_reports_once:
  "distinct ds \<Longrightarrow> d \<in> set ds \<Longrightarrow> count_list (map Update_device_down ds) (Update_device_down d) = 1"
  by (induction ds) (auto simp: down_reports_none)

lemma down_reports_not_configurator:
  "filter configurator_event (map Update_device_down ds) = []"
  by (induction ds) simp_all

lemmas batch_simps = treat_devices_added_def treat_device_added_def add_interface_def
  add_static_route_def get_tap_device_name_def TAP_INTERFACE_PREFIX_def truthy_def attempt
  andthen_def try_except_def external_def returns_def raises_def execute_checked execute_unchecked
  Let_def ideal_env_def ideal_host_def ideal_details_def configured_def

lemmas poll_simps = begin_tick_def poll_devices_def update_devices_def get_tap_devices_def
  TAP_INTERFACE_PREFIX_def andthen_def try_except_def external_def returns_def ideal_env_def

lemmas run_simps = tick_def begin_tick_def poll_devices_def notify_plugin_def update_devices_def
  get_tap_devices_def process_network_devices_def treat_devices_added_def treat_devices_removed_def
  treat_device_added_def treat_device_removed_def add_interface_def add_static_route_def
  get_tap_device_name_def TAP_INTERFACE_PREFIX_def truthy_def attempt andthen_def try_except_def
  external_def returns_def raises_def execute_checked execute_unchecked Let_def
  ideal_env_def ideal_host_def ideal_details_def configured_def

text \<open>
  C1, as the code has it: in a tick that computed a delta, once the added names were
  treated without an exception and the security group filter of the removed names was
  removed, the loop reports each removed name down to the plugin exactly once, in the
  order of iteration, and makes the observed set the known set. Nothing else is done for
  a removed name: no event of the configurator follows, \<^verbatim>\<open>remove_interface\<close> is not
  called.
\<close>

theorem removed_names_reported_down:
  assumes poll: "poll_devices env (begin_tick st) tr = (Inr (st1, Some info), tr1)"
    and added: "treat_devices_added env (added info) tr1 = (Inr resync_a, tr2)"
    and filt: "sg_remove_devices_filter env tr2 (removed info) = Inr ()"
    and order: "set (set_order env (removed info)) = removed info"
               "distinct (set_order env (removed info))"
  shows "\<exists>resync evs.
           tick env st tr =
             (Inr (st1\<lparr>sync := resync, devices := current info\<rparr>),
              tr2 @ Remove_devices_filter (removed info) # evs) \<and>
           evs = map Update_device_down (set_order env (removed info)) \<and>
           (\<forall>d \<in> removed info. count_list evs (Update_device_down d) = 1) \<and>
           filter configurator_event (Remove_devices_filter (removed info) # evs) = []"
proof -
  from removed_loop_trace [of env "set_order env (removed info)" False
      "tr2 @ [Remove_devices_filter (removed info)]"]
  obtain rb where rb: "treat_devices_removed_loop env (set_order env (removed info)) False
                     (tr2 @ [Remove_devices_filter (removed info)]) =
                   (Inr rb, (tr2 @ [Remove_devices_filter (removed info)]) @
                            map Update_device_down (set_order env (removed info)))"
    by blast
  from added filt rb have "process_network_devices env info tr1 =
      (Inr (resync_a \<or> rb), tr2 @ Remove_devices_filter (removed info) #
                               map Update_device_down (set_order env (removed info)))"
    by (simp add: process_cases)
  then have "tick env st tr =
      (Inr (st1\<lparr>sync := resync_a \<or> rb, devices := current info\<rparr>),
       tr2 @ Remove_devices_filter (removed info) #
             map Update_device_down (set_order env (removed info)))"
    by (simp add: tick_after_poll [OF poll])
  moreover have "\<forall>d \<in> removed info.
      count_list (map Update_device_down (set_order env (removed info))) (Update_device_down d) = 1"
    using order by (simp add: down_reports_once)
  ultimately show ?thesis
    using down_reports_not_configurator [of "set_order env (removed info)"] by auto
qed

text \<open>
  A tick whose delta adds \<^verbatim>\<open>tapA\<close> and removes \<^verbatim>\<open>tapX\<close>: after \<^verbatim>\<open>tapA\<close> is configured,
  the filter of \<^verbatim>\<open>tapX\<close> is removed and \<^verbatim>\<open>tapX\<close> is reported down once.
\<close>

theorem removed_names_reported_down_witness:
  "poll_devices (ideal_env [''tapA'']) (begin_tick \<lparr>sync = False, devices = {''tapX''}\<rparr>) [] =
     (Inr (\<lparr>sync = False, devices = {''tapX''}\<rparr>, Some churn_info), [Listdir]) \<and>
   treat_devices_added (ideal_env [''tapA'']) (added churn_info) [Listdir] =
     (Inr False, Listdir # Prepare_devices_filter {''tapA''} # configured ''tapA'' ''A'') \<and>
   set_order (ideal_env [''tapA'']) (removed churn_info) = [''tapX''] \<and>
   (\<exists>resync. tick (ideal_env [''tapA'']) \<lparr>sync = False, devices = {''tapX''}\<rparr> [] =
      (Inr \<lparr>sync = resync, devices = {''tapA''}\<rparr>,
       (Listdir # Prepare_devices_filter {''tapA''} # configured ''tapA'' ''A'') @
       [Remove_devices_filter {''tapX''}, Update_device_down ''tapX'']))"
proof -
  have poll: "poll_devices (ideal_env [''tapA'']) (begin_tick \<lparr>sync = False, devices = {''tapX''}\<rparr>) [] =
     (Inr (\<lparr>sync = False, devices = {''tapX''}\<rparr>, Some churn_info), [Listdir])"
    by (simp add: poll_simps churn_info_def)
  have added: "treat_devices_added (ideal_env [''tapA'']) (added churn_info) [Listdir] =
     (Inr False, Listdir # Prepare_devices_filter {''tapA''} # configured ''tapA'' ''A'')"
    by (simp add: batch_simps churn_info_def)
  have filt: "sg_remove_devices_filter (ideal_env [''tapA''])
                (Listdir # Prepare_devices_filter {''tapA''} # configured ''tapA'' ''A'')
                (removed churn_info) = Inr ()"
    by (simp add: ideal_env_def)
  have order: "set_order (ideal_env [''tapA'']) (removed churn_info) = [''tapX'']"
    by (simp add: ideal_env_def churn_info_def)
  have order1: "set (set_order (ideal_env [''tapA'']) (removed churn_info)) = removed churn_info"
    by (simp add: order) (simp add: churn_info_def)
  have order2: "distinct (set_order (ideal_env [''tapA'']) (removed churn_info))"
    by (simp add: order)
  from removed_names_reported_down [OF poll added filt order1 order2]
  have "\<exists>resync. tick (ideal_env [''tapA'']) \<lparr>sync = False, devices = {''tapX''}\<rparr> [] =
      (Inr \<lparr>sync = resync, devices = {''tapA''}\<rparr>,
       (Listdir # Prepare_devices_filter {''tapA''} # configured ''tapA'' ''A'') @
       [Remove_devices_filter {''tapX''}, Update_device_down ''tapX''])"
    by (auto simp: churn_info_def ideal_env_def)
  with poll added order show ?thesis by simp
qed

text \<open>
  C1 as stated fails: with \<^verbatim>\<open>tapX\<close> known and no device observed, the tick reports
  \<^verbatim>\<open>tapX\<close> down once and leaves no device known, but no event of the configurator
  occurs: \<^verbatim>\<open>remove_interface\<close> is not called.
\<close>

theorem removed_device_tick_calls_no_configurator:
  "tick (ideal_env []) \<lparr>sync = False, devices = {''tapX''}\<rparr> [] =
     (Inr \<lparr>sync = False, devices = {}\<rparr>,
      [Listdir, Prepare_devices_filter {}, Remove_devices_filter {''tapX''},
       Update_device_down ''tapX'']) \<and>
   filter configurator_event (snd (tick (ideal_env []) \<lparr>sync = False, devices = {''tapX''}\<rparr> [])) = []"
  by (simp add: run_simps)

text \<open>
  C2, as the code has it: in every tick that computed a delta, the added names are
  treated first. The trace of the tick is the trace at the end of
  \<^verbatim>\<open>treat_devices_added\<close> followed by the events of the removed names only: none of
  them when the treatment of the added names raised, the removal of the filter alone
  when that raised, and otherwise the removal of the filter and the reports that the
  removed names are down.
\<close>

theorem added_names_before_removed_names:
  assumes "poll_devices env (begin_tick st) tr = (Inr (st1, Some info), tr1)"
  shows "snd (tick env st tr) =
     snd (treat_devices_added env (added info) tr1) @
     (case fst (treat_devices_added env (added info) tr1) of
        Inl e \<Rightarrow> []
      | Inr resync_a \<Rightarrow>
          (case sg_remove_devices_filter env (snd (treat_devices_added env (added info) tr1))
                  (removed info) of
             Inl m \<Rightarrow> [Remove_devices_filter (removed info)]
           | Inr u \<Rightarrow> Remove_devices_filter (removed info) #
                       map Update_device_down (set_order env (removed info))))"
  by (simp only: tick_trace_after_poll [OF assms] process_trace)

text \<open>
  A tick whose delta adds \<^verbatim>\<open>tapA\<close> and removes \<^verbatim>\<open>tapX\<close>, with the report that
  \<^verbatim>\<open>tapA\<close> is up timing out: the trace ends with that report and holds no event of
  \<^verbatim>\<open>tapX\<close>.
\<close>

theorem added_names_before_removed_names_witness:
  "poll_devices report_up_fails_env (begin_tick \<lparr>sync = False, devices = {''tapX''}\<rparr>) [] =
     (Inr (\<lparr>sync = False, devices = {''tapX''}\<rparr>, Some churn_info), [Listdir]) \<and>
   snd (tick report_up_fails_env \<lparr>sync = False, devices = {''tapX''}\<rparr> []) =
     Listdir # Prepare_devices_filter {''tapA''} # configured ''tapA'' ''A''"
proof -
  have poll: "poll_devices report_up_fails_env (begin_tick \<lparr>sync = False, devices = {''tapX''}\<rparr>) [] =
     (Inr (\<lparr>sync = False, devices = {''tapX''}\<rparr>, Some churn_info), [Listdir])"
    by (simp add: poll_simps churn_info_def report_up_fails_env_def)
  have added: "treat_devices_added report_up_fails_env (added churn_info) [Listdir] =
     (Inl (Exception ''Timeout''), Listdir # Prepare_devices_filter {''tapA''} # configured ''tapA'' ''A'')"
    by (simp add: batch_simps churn_info_def report_up_fails_env_def)
  show ?thesis
    using poll added_names_before_removed_names [OF poll] by (simp add: added)
qed

text \<open>
  C2 as stated fails: in a tick whose delta adds \<^verbatim>\<open>tapA\<close> and removes \<^verbatim>\<open>tapX\<close>,
  \<^verbatim>\<open>tapA\<close> is looked up, configured and reported up before the filter of \<^verbatim>\<open>tapX\<close>
  is removed and \<^verbatim>\<open>tapX\<close> is reported down.
\<close>

theorem added_device_precedes_removed_device:
  "tick (ideal_env [''tapA'']) \<lparr>sync = False, devices = {''tapX''}\<rparr> [] =
     (Inr \<lparr>sync = False, devices = {''tapA''}\<rparr>,
      Listdir # Prepare_devices_filter {''tapA''} # configured ''tapA'' ''A'' @
      [Remove_devices_filter {''tapX''}, Update_device_down ''tapX''])"
  by (simp add: run_simps)

text \<open>
  C4: when the observed set \<open>B\<close> differs from the known set \<open>A\<close>, \<^verbatim>\<open>update_devices\<close>
  returns the delta with \<open>added = B - A\<close> and \<open>removed = A - B\<close>, and
  \<open>(A \<union> added) - removed = B\<close>.
\<close>

theorem update_devices_delta:
  "get_tap_devices env tr = (Inr B, tr') \<Longrightarrow> B \<noteq> A \<Longrightarrow>
   \<exists>info. update_devices env A tr = (Inr (Some info), tr') \<and>
          current info = B \<and> added info = B - A \<and> removed info = A - B \<and>
          (A \<union> added info) - removed info = B"
  by (auto simp: update_devices_cases)

theorem update_devices_delta_witness:
  "get_tap_devices (ideal_env [''tapA'', ''lo'']) [] = (Inr {''tapA''}, [Listdir]) \<and>
   {''tapA''} \<noteq> {''tapX''} \<and>
   (\<exists>info. update_devices (ideal_env [''tapA'', ''lo'']) {''tapX''} [] = (Inr (Some info), [Listdir]) \<and>
          current info = {''tapA''} \<and> added info = {''tapA''} \<and> removed info = {''tapX''} \<and>
          ({''tapX''} \<union> added info) - removed info = {''tapA''})"
proof -
  have g: "get_tap_devices (ideal_env [''tapA'', ''lo'']) [] = (Inr {''tapA''}, [Listdir])"
    by (simp add: get_tap_devices_def ideal_env_def andthen_def external_def returns_def
        TAP_INTERFACE_PREFIX_def)
  have n: "{''tapA''} \<noteq> {''tapX''}" by simp
  show ?thesis
    using g n update_devices_delta [OF g n] by auto
qed

text \<open>
  C5: a tick that starts with the resync flag set clears the known set, so that against
  any non-empty observed set the delta has \<open>removed = {}\<close> and \<open>added = current\<close>,
  and the tick treats every observed name as added: it is the processing of that delta.
\<close>

theorem resync_rediscovers_all:
  assumes "sync st" and "get_tap_devices env tr = (Inr cur, tr')" and "cur \<noteq> {}"
  shows "poll_devices env (begin_tick st) tr =
           (Inr (st\<lparr>devices := {}, sync := False\<rparr>,
                 Some \<lparr>current = cur, added = cur, removed = {}\<rparr>), tr') \<and>
         tick env st tr =
           (case process_network_devices env \<lparr>current = cur, added = cur, removed = {}\<rparr> tr' of
              (Inr resync, tr2) \<Rightarrow> (Inr (st\<lparr>devices := cur, sync := resync\<rparr>), tr2)
            | (Inl (Exception m), tr2) \<Rightarrow> (Inr (st\<lparr>devices := {}, sync := True\<rparr>), tr2)
            | (Inl (SystemExit n), tr2) \<Rightarrow> (Inl (SystemExit n), tr2))"
proof -
  from assms have poll: "poll_devices env (begin_tick st) tr =
           (Inr (st\<lparr>devices := {}, sync := False\<rparr>,
                 Some \<lparr>current = cur, added = cur, removed = {}\<rparr>), tr')"
    by (simp add: begin_tick_def poll_devices_def update_devices_cases andthen_def returns_def
        try_except_def)
  show ?thesis
    by (simp add: poll tick_after_poll [OF poll] split: prod.splits sum.splits exn.splits)
qed


text \<open>
  With the stale name \<^verbatim>\<open>tapX\<close> known and \<^verbatim>\<open>tapA\<close> observed, the tick after a resync
  configures \<^verbatim>\<open>tapA\<close> as new and reports nothing for \<^verbatim>\<open>tapX\<close>.
\<close>

theorem resync_rediscovers_all_witness:
  "sync \<lparr>sync = True, devices = {''tapX''}\<rparr> \<and>
   get_tap_devices (ideal_env [''tapA'', ''lo'']) [] = (Inr {''tapA''}, [Listdir]) \<and>
   {''tapA''} \<noteq> ({} :: string set) \<and>
   tick (ideal_env [''tapA'', ''lo'']) \<lparr>sync = True, devices = {''tapX''}\<rparr> [] =
     (Inr \<lparr>sync = False, devices = {''tapA''}\<rparr>,
      Listdir # Prepare_devices_filter {''tapA''} # configured ''tapA'' ''A'' @
      [Remove_devices_filter {}])"
proof -
  have s: "sync \<lparr>sync = True, devices = {''tapX''}\<rparr>" by simp
  have g: "get_tap_devices (ideal_env [''tapA'', ''lo'']) [] = (Inr {''tapA''}, [Listdir])"
    by (simp add: get_tap_devices_def ideal_env_def andthen_def external_def returns_def
        TAP_INTERFACE_PREFIX_def)
  have n: "{''tapA''} \<noteq> ({} :: string set)" by simp
  have p: "process_network_devices (ideal_env [''tapA'', ''lo''])
             \<lparr>current = {''tapA''}, added = {''tapA''}, removed = {}\<rparr> [Listdir] =
           (Inr False, Listdir # Prepare_devices_filter {''tapA''} # configured ''tapA'' ''A'' @
                       [Remove_devices_filter {}])"
    by (simp add: batch_simps process_network_devices_def treat_devices_removed_def)
  show ?thesis
    using s g n resync_rediscovers_all [OF s g n] by (simp add: p)
qed

text \<open>
  C6: when the lookup of a device \<open>d\<close> of the batch fails, after the devices before it
  were treated, the batch goes on with the devices after \<open>d\<close>: the lookup is the only
  event of \<open>d\<close> (it is not configured and nothing is reported for it), the resync flag
  is set, and the flag the batch returns is never false; the failure is not raised.
\<close>

theorem lookup_failure_skips_device:
  assumes prep: "sg_prepare_devices_filter env tr devs = Inr ()"
    and order: "set_order env devs = pre @ d # post"
    and before: "treat_devices_added_loop env pre False (tr @ [Prepare_devices_filter devs]) = (Inr r1, tr1)"
    and fails: "rpc_get_device_details env tr1 d = Inl m"
  shows "treat_devices_added env devs tr =
           treat_devices_added_loop env post True (tr1 @ [Get_device_details d]) \<and>
         fst (treat_devices_added env devs tr) \<noteq> Inr False"
proof -
  have "treat_devices_added env devs tr =
        treat_devices_added_loop env post True (tr1 @ [Get_device_details d])"
    using prep before lookup_failed [OF fails]
    by (simp add: treat_devices_added_def order added_loop_append andthen_def external_def)
  with added_loop_keeps_resync show ?thesis by simp
qed

lemmas timeout_simps = timeout_env_def configured_def treat_device_added_def add_interface_def
  add_static_route_def get_tap_device_name_def TAP_INTERFACE_PREFIX_def truthy_def attempt
  andthen_def try_except_def external_def returns_def raises_def execute_checked execute_unchecked
  Let_def ideal_env_def ideal_host_def ideal_details_def

text \<open>
  A batch of three added devices in which the lookup of the second times out: the first
  and the third are configured and reported up, and the batch returns \<^verbatim>\<open>True\<close>.
\<close>

theorem lookup_failure_skips_device_witness:
  "treat_devices_added timeout_env {''tapA'', ''tapB'', ''tapC''} [] =
     (Inr True,
      Prepare_devices_filter {''tapA'', ''tapB'', ''tapC''} # configured ''tapA'' ''A'' @
      Get_device_details ''tapB'' # configured ''tapC'' ''C'')"
proof -
  have prep: "sg_prepare_devices_filter timeout_env [] {''tapA'', ''tapB'', ''tapC''} = Inr ()"
    by (simp add: timeout_env_def ideal_env_def)
  have order: "set_order timeout_env {''tapA'', ''tapB'', ''tapC''} = [''tapA''] @ ''tapB'' # [''tapC'']"
    by (simp add: timeout_env_def ideal_env_def)
  have before: "treat_devices_added_loop timeout_env [''tapA''] False
                  ([] @ [Prepare_devices_filter {''tapA'', ''tapB'', ''tapC''}]) =
                (Inr False, Prepare_devices_filter {''tapA'', ''tapB'', ''tapC''} # configured ''tapA'' ''A'')"
    by (simp add: timeout_simps)
  have fails: "rpc_get_device_details timeout_env
                 (Prepare_devices_filter {''tapA'', ''tapB'', ''tapC''} # configured ''tapA'' ''A'') ''tapB''
               = Inl ''Timeout''"
    by (simp add: timeout_env_def ideal_env_def)
  have rest: "treat_devices_added_loop timeout_env [''tapC''] True
                ((Prepare_devices_filter {''tapA'', ''tapB'', ''tapC''} # configured ''tapA'' ''A'') @
                 [Get_device_details ''tapB'']) =
              (Inr True,
               Prepare_devices_filter {''tapA'', ''tapB'', ''tapC''} # configured ''tapA'' ''A'' @
               Get_device_details ''tapB'' # configured ''tapC'' ''C'')"
    by (simp add: timeout_simps)
  show ?thesis
    using lookup_failure_skips_device [OF prep order before fails] rest by simp
qed




end
